theory Spec2Isabelle
  imports Complex_Main "HOL-Library.Sublist" "HOL-Library.AList"
begin

section \<open>Electronic Hardware Dealer API: data model\<close>

text \<open>
  The handlers of \<^verbatim>\<open>src/main.py\<close> raise \<^verbatim>\<open>HTTPException(status_code, detail)\<close>.
  Two further faults are visible from the outside: the framework rejects a request body that
  violates its schema before the handler runs (\<open>RequestValidationError\<close>, status 422), and a
  schema object built inside a handler from values that violate its constraints raises
  pydantic's \<open>ValidationError\<close>, which no handler catches.
\<close>

datatype error =
    HTTPException nat string
  | RequestValidationError
  | ValidationError

text \<open>
  Python's \<^verbatim>\<open>float\<close> is idealised as an exact rational: rounding, infinities and NaN are
  not modelled. Python's \<^verbatim>\<open>int\<close> is \<open>int\<close>, \<^verbatim>\<open>Optional[str]\<close> is \<open>string option\<close>.
\<close>

subsection \<open>Schemas (\<^verbatim>\<open>src/schemas.py\<close>)\<close>

record User =
  name :: string
  email :: string
  hashed_password :: string
  role :: string
  is_active :: bool

record Category =
  name :: string
  parent_id :: "string option"
  description :: "string option"

record Product =
  name :: string
  description :: "string option"
  price :: rat
  sku :: "string option"
  image_url :: "string option"
  category_id :: string
  subcategory_id :: "string option"
  in_stock :: bool
  stock_qty :: "int option"

record OrderItem =
  product_id :: string
  name :: string
  quantity :: int
  unit_price :: rat

record Order =
  user_id :: string
  email :: string
  items :: "OrderItem list"
  subtotal :: rat
  tax :: rat
  total :: rat
  status :: string
  "notes" :: "string option"
  shipping_name :: "string option"
  shipping_address :: "string option"
  shipping_phone :: "string option"

text \<open>
  The field constraints of \<^verbatim>\<open>OrderItem\<close>: \<^verbatim>\<open>quantity: int = Field(..., ge=1)\<close> and
  \<^verbatim>\<open>unit_price: float = Field(..., ge=0)\<close>.
\<close>

definition OrderItem_valid :: "OrderItem \<Rightarrow> bool" where
  "OrderItem_valid i \<longleftrightarrow> 1 \<le> quantity i \<and> 0 \<le> unit_price i"

text \<open>
  \<^verbatim>\<open>EmailStr\<close> is checked by a library outside the repository. The check is a parameter
  \<open>valid_email\<close> of every function that builds a schema object with an \<^verbatim>\<open>EmailStr\<close> field;
  the normalisation the library applies to an accepted address is not modelled.

  \<open>User_new\<close> is the constructor call \<^verbatim>\<open>User(name=..., email=..., hashed_password=...)\<close>
  with the defaults of the two remaining fields.
\<close>

definition User_new ::
  "(string \<Rightarrow> bool) \<Rightarrow> string \<Rightarrow> string \<Rightarrow> string \<Rightarrow> error + User" where
  "User_new valid_email n e pw =
     (if \<not> valid_email e then Inl ValidationError
      else Inr \<lparr>User.name = n, User.email = e, hashed_password = pw,
                role = ''customer'', is_active = True\<rparr>)"

text \<open>
  \<open>Order_new\<close> is the constructor call \<^verbatim>\<open>Order(...)\<close> of \<^verbatim>\<open>place_order\<close>, with
  \<^verbatim>\<open>status\<close> at its default. The items passed are \<^verbatim>\<open>OrderItem\<close> instances already; the
  constraints checked here are those of the fields of \<^verbatim>\<open>Order\<close> itself:
  \<^verbatim>\<open>subtotal\<close>, \<^verbatim>\<open>tax\<close> and \<^verbatim>\<open>total\<close> are \<^verbatim>\<open>ge=0\<close>.
\<close>

definition Order_new ::
  "(string \<Rightarrow> bool) \<Rightarrow> string \<Rightarrow> string \<Rightarrow> OrderItem list \<Rightarrow> rat \<Rightarrow> rat \<Rightarrow> rat \<Rightarrow>
   string option \<Rightarrow> string option \<Rightarrow> string option \<Rightarrow> string option \<Rightarrow> error + Order" where
  "Order_new valid_email uid e its sub tx tot nts sname saddr sphone =
     (if \<not> valid_email e \<or> sub < 0 \<or> tx < 0 \<or> tot < 0 then Inl ValidationError
      else Inr \<lparr>user_id = uid, Order.email = e, items = its, subtotal = sub, tax = tx,
                total = tot, status = ''placed'', notes = nts, shipping_name = sname,
                shipping_address = saddr, shipping_phone = sphone\<rparr>)"

subsection \<open>Request and response bodies (\<^verbatim>\<open>src/main.py\<close>)\<close>

record LoginRequest =
  email :: string
  password :: string

record SignupRequest =
  name :: string
  email :: string
  password :: string

record PlaceOrderRequest =
  user_id :: string
  email :: string
  items :: "OrderItem list"
  "notes" :: "string option"
  shipping_name :: "string option"
  shipping_address :: "string option"
  shipping_phone :: "string option"

text \<open>The dictionaries the handlers return, one record per shape.\<close>

record SignupResponse =
  user_id :: string
  email :: string

text \<open>
  \<^verbatim>\<open>login\<close> reads \<^verbatim>\<open>name\<close> and \<^verbatim>\<open>email\<close> with \<^verbatim>\<open>dict.get\<close>, which gives
  \<^verbatim>\<open>None\<close> for a missing key: the two fields are optional in the response.
\<close>

record LoginResponse =
  user_id :: string
  name :: "string option"
  email :: "string option"

record IdResponse =
  id_ :: string

record OrderResponse =
  order_id :: string
  total :: rat

section \<open>Document store adapter\<close>

text \<open>
  \<^verbatim>\<open>database.py\<close> (\<^verbatim>\<open>db\<close>, \<^verbatim>\<open>create_document\<close>, \<^verbatim>\<open>get_documents\<close>) is imported by
  \<^verbatim>\<open>src/main.py\<close> but is not among the sources. This section models it from the
  specification, sections 3 and 4.1: each entity is a document in a named collection, an
  identifier is generated by the store when the document is created, and documents are
  retrieved in the order of the store.
\<close>

text \<open>
  Modelled from the spec: the store's identifier type (\<^verbatim>\<open>bson.ObjectId\<close>), missing from
  the sources. An identifier is a number of 96 bits; \<open>str_ObjectId\<close> is Python's
  \<^verbatim>\<open>str(oid)\<close>, its 24 hexadecimal digits.
\<close>

datatype ObjectId = ObjectId nat

definition hexdigit :: "nat \<Rightarrow> char" where
  "hexdigit n = ''0123456789abcdef'' ! (n mod 16)"

fun hex_digits :: "nat \<Rightarrow> nat \<Rightarrow> string" where
  "hex_digits 0 n = []"
| "hex_digits (Suc k) n = hex_digits k (n div 16) @ [hexdigit n]"

fun str_ObjectId :: "ObjectId \<Rightarrow> string" where
  "str_ObjectId (ObjectId n) = hex_digits 24 n"

text \<open>
  Modelled from the spec: a stored document, missing from the sources with the adapter. It
  is the store's identifier (the key \<^verbatim>\<open>_id\<close>) and the fields of one of the four schemas.
\<close>

datatype entity =
    UserDoc User
  | CategoryDoc Category
  | ProductDoc Product
  | OrderDoc Order

type_synonym document = "ObjectId \<times> entity"

text \<open>
  \<open>field_str e k\<close> is \<^verbatim>\<open>doc.get(k)\<close> for the keys that hold strings: \<open>None\<close> is
  Python's \<^verbatim>\<open>None\<close>, the result for a key the document does not have and for an optional
  field that is not set.
\<close>

fun field_str :: "entity \<Rightarrow> string \<Rightarrow> string option" where
  "field_str (UserDoc u) k =
     (if k = ''name'' then Some (User.name u)
      else if k = ''email'' then Some (User.email u)
      else if k = ''hashed_password'' then Some (hashed_password u)
      else if k = ''role'' then Some (role u)
      else None)"
| "field_str (CategoryDoc c) k =
     (if k = ''name'' then Some (Category.name c)
      else if k = ''parent_id'' then parent_id c
      else if k = ''description'' then Category.description c
      else None)"
| "field_str (ProductDoc p) k =
     (if k = ''name'' then Some (Product.name p)
      else if k = ''description'' then Product.description p
      else if k = ''sku'' then sku p
      else if k = ''image_url'' then image_url p
      else if k = ''category_id'' then Some (category_id p)
      else if k = ''subcategory_id'' then subcategory_id p
      else None)"
| "field_str (OrderDoc r) k =
     (if k = ''user_id'' then Some (Order.user_id r)
      else if k = ''email'' then Some (Order.email r)
      else if k = ''status'' then Some (status r)
      else if k = ''notes'' then Order.notes r
      else if k = ''shipping_name'' then Order.shipping_name r
      else if k = ''shipping_address'' then Order.shipping_address r
      else if k = ''shipping_phone'' then Order.shipping_phone r
      else None)"

text \<open>
  A filter dictionary maps a field name to a clause: a string, matched exactly, or the
  dictionary \<^verbatim>\<open>{"$regex": q, "$options": opts}\<close> that \<^verbatim>\<open>list_products\<close> builds.
\<close>

datatype clause = Equals string | Regex string string

type_synonym filter_dict = "(string \<times> clause) list"

definition lower_char :: "char \<Rightarrow> char" where
  "lower_char c =
     (let n = (of_char c :: nat) in if 65 \<le> n \<and> n \<le> 90 then char_of (n + 32) else c)"

definition lower :: "string \<Rightarrow> string" where
  "lower s = map lower_char s"

text \<open>
  Modelled from the spec: how the store matches a document against a filter (section 4.1:
  ``an equality/pattern filter (keys are field names; a "q" style filter is a
  case-insensitive substring/pattern match on the name field)''). The pattern is matched as
  a substring, ignoring the case of ASCII letters when the options contain \<^verbatim>\<open>i\<close>.
\<close>

fun clause_matches :: "string option \<Rightarrow> clause \<Rightarrow> bool" where
  "clause_matches v (Equals s) = (v = Some s)"
| "clause_matches v (Regex q opts) =
     (case v of
        None \<Rightarrow> False
      | Some n \<Rightarrow> if CHR ''i'' \<in> set opts then sublist (lower q) (lower n) else sublist q n)"

definition matches :: "filter_dict \<Rightarrow> document \<Rightarrow> bool" where
  "matches flt d = list_all (\<lambda>(k, c). clause_matches (field_str (snd d) k) c) flt"

text \<open>
  Modelled from the spec: the state of the store, missing from the sources. Each named
  collection is the list of its documents in insertion order; \<open>next_oid\<close> is the
  identifier the store assigns to the next document.
\<close>

record database =
  collections :: "string \<Rightarrow> document list"
  next_oid :: nat

text \<open>
  Modelled from the spec: \<^verbatim>\<open>create_document(collection_name, data)\<close>, missing from the
  sources (section 4.1: ``inserts it into the named collection, returns the newly assigned
  identifier as a string. No side effects beyond the insert'').
\<close>

definition create_document :: "database \<Rightarrow> string \<Rightarrow> entity \<Rightarrow> string \<times> database" where
  "create_document d collection_name data =
     (let oid = ObjectId (next_oid d) in
      (str_ObjectId oid,
       d\<lparr>collections := (collections d)(collection_name := collections d collection_name @ [(oid, data)]),
         next_oid := Suc (next_oid d)\<rparr>))"

text \<open>
  Modelled from the spec: \<^verbatim>\<open>get_documents(collection_name, filter_dict, limit)\<close>, missing
  from the sources (section 4.1: ``returns documents matching [the] filter, capped at
  limit, in store-native order'', with \<^verbatim>\<open>limit=100\<close> when none is given). A limit below
  zero caps the result at no document. The store is read, not changed.
\<close>

definition get_documents ::
  "database \<Rightarrow> string \<Rightarrow> filter_dict option \<Rightarrow> int option \<Rightarrow> document list" where
  "get_documents d collection_name flt limit =
     take (nat (case limit of None \<Rightarrow> 100 | Some l \<Rightarrow> l))
       (filter (matches (case flt of None \<Rightarrow> [] | Some f \<Rightarrow> f)) (collections d collection_name))"

text \<open>
  Modelled from the spec: the driver's \<^verbatim>\<open>db[name].find_one(filter)\<close>, the first document
  of the collection that matches, or \<^verbatim>\<open>None\<close> (section 4.2: ``looks up existing User by
  exact email match'').
\<close>

definition find_one :: "database \<Rightarrow> string \<Rightarrow> filter_dict \<Rightarrow> document option" where
  "find_one d collection_name flt = List.find (matches flt) (collections d collection_name)"

section \<open>Request handlers (\<^verbatim>\<open>src/main.py\<close>)\<close>

text \<open>
  The global \<^verbatim>\<open>db\<close> is \<^verbatim>\<open>None\<close> when the store was never configured: a handler takes
  a \<open>database option\<close>. It returns what the request returns or raises, and the store
  after the request.
\<close>

type_synonym 'a outcome = "(error + 'a) \<times> database option"

subsection \<open>Auth\<close>

definition signup :: "(string \<Rightarrow> bool) \<Rightarrow> database option \<Rightarrow> SignupRequest \<Rightarrow> SignupResponse outcome" where
  "signup valid_email db payload =
     (case db of
        None \<Rightarrow> (Inl (HTTPException 500 ''Database not configured''), db)
      | Some d \<Rightarrow>
          (case find_one d ''user'' [(''email'', Equals (SignupRequest.email payload))] of
             Some existing \<Rightarrow> (Inl (HTTPException 400 ''Email already registered''), db)
           | None \<Rightarrow>
               (case User_new valid_email (SignupRequest.name payload) (SignupRequest.email payload)
                       (SignupRequest.password payload) of
                  Inl e \<Rightarrow> (Inl e, db)
                | Inr user \<Rightarrow>
                    (let (user_id, d') = create_document d ''user'' (UserDoc user) in
                     (Inr \<lparr>SignupResponse.user_id = user_id,
                           SignupResponse.email = SignupRequest.email payload\<rparr>, Some d')))))"

text \<open>
  A document the store returns has its \<^verbatim>\<open>_id\<close>, so \<^verbatim>\<open>not user\<close> holds for \<^verbatim>\<open>None\<close>
  only.
\<close>

definition login :: "database option \<Rightarrow> LoginRequest \<Rightarrow> LoginResponse outcome" where
  "login db payload =
     (case db of
        None \<Rightarrow> (Inl (HTTPException 500 ''Database not configured''), db)
      | Some d \<Rightarrow>
          (case find_one d ''user'' [(''email'', Equals (LoginRequest.email payload))] of
             None \<Rightarrow> (Inl (HTTPException 401 ''Invalid credentials''), db)
           | Some user \<Rightarrow>
               if field_str (snd user) ''hashed_password'' \<noteq> Some (LoginRequest.password payload)
               then (Inl (HTTPException 401 ''Invalid credentials''), db)
               else (Inr \<lparr>LoginResponse.user_id = str_ObjectId (fst user),
                          LoginResponse.name = field_str (snd user) ''name'',
                          LoginResponse.email = field_str (snd user) ''email''\<rparr>, db)))"

subsection \<open>Categories\<close>

text \<open>
  A retrieved document after \<^verbatim>\<open>c["_id"] = str(c["_id"])\<close>: the identifier is a string.
\<close>

type_synonym json_document = "string \<times> entity"

definition stringify_id :: "document \<Rightarrow> json_document" where
  "stringify_id c = (str_ObjectId (fst c), snd c)"

text \<open>
  \<^verbatim>\<open>by_parent\<close> is a dictionary from the value of \<^verbatim>\<open>parent_id\<close> (\<^verbatim>\<open>None\<close> for a root)
  to a list: an association list with one entry per key, in the order the keys were first
  inserted. \<open>setdefault_append\<close> is \<^verbatim>\<open>by_parent.setdefault(parent, []).append(c)\<close>.
\<close>

type_synonym by_parent = "(string option \<times> json_document list) list"

fun setdefault_append :: "string option \<Rightarrow> json_document \<Rightarrow> by_parent \<Rightarrow> by_parent" where
  "setdefault_append parent c [] = [(parent, [c])]"
| "setdefault_append parent c ((k, cs) # rest) =
     (if k = parent then (k, cs @ [c]) # rest else (k, cs) # setdefault_append parent c rest)"

text \<open>The loop \<^verbatim>\<open>for c in cats\<close> of \<^verbatim>\<open>list_categories\<close>.\<close>

fun build_hierarchy :: "document list \<Rightarrow> by_parent \<Rightarrow> by_parent" where
  "build_hierarchy [] by_parent = by_parent"
| "build_hierarchy (c # cats) by_parent =
     (let c' = stringify_id c;
          parent = field_str (snd c') ''parent_id''
      in build_hierarchy cats (setdefault_append parent c' by_parent))"

definition list_categories :: "database option \<Rightarrow> by_parent outcome" where
  "list_categories db =
     (case db of
        None \<Rightarrow> (Inl (HTTPException 500 ''Database not configured''), db)
      | Some d \<Rightarrow>
          (let cats = get_documents d ''category'' None None
           in (Inr (build_hierarchy cats []), db)))"

definition create_category :: "database option \<Rightarrow> Category \<Rightarrow> IdResponse outcome" where
  "create_category db cat =
     (case db of
        None \<Rightarrow> (Inl (HTTPException 500 ''Database not configured''), db)
      | Some d \<Rightarrow>
          (let (new_id, d') = create_document d ''category'' (CategoryDoc cat)
           in (Inr \<lparr>id_ = new_id\<rparr>, Some d')))"

subsection \<open>Products\<close>

text \<open>
  \<^verbatim>\<open>ObjectId(prod.category_id)\<close> is a call into the \<^verbatim>\<open>bson\<close> library, outside the
  repository: whether it returns or raises is the parameter \<open>is_object_id\<close>. The test
  \<^verbatim>\<open>if prod.category_id:\<close> is Python's truth value of a string: false for the empty one.
\<close>

definition create_product :: "(string \<Rightarrow> bool) \<Rightarrow> database option \<Rightarrow> Product \<Rightarrow> IdResponse outcome" where
  "create_product is_object_id db product =
     (case db of
        None \<Rightarrow> (Inl (HTTPException 500 ''Database not configured''), db)
      | Some d \<Rightarrow>
          if category_id product \<noteq> [] \<and> \<not> is_object_id (category_id product)
          then (Inl (HTTPException 400 ''Invalid category_id''), db)
          else (let (doc_id, d') = create_document d ''product'' (ProductDoc product)
                in (Inr \<lparr>id_ = doc_id\<rparr>, Some d')))"

text \<open>
  The query parameter \<^verbatim>\<open>limit: int = 100\<close> is optional: \<open>None\<close> is a request without it.
  The tests \<^verbatim>\<open>if category_id:\<close>, \<^verbatim>\<open>if subcategory_id:\<close> and \<^verbatim>\<open>if q:\<close> are Python's
  truth value of an \<^verbatim>\<open>Optional[str]\<close>: false for \<^verbatim>\<open>None\<close> and for the empty string.
  The parameters \<^verbatim>\<open>category_id\<close> and \<^verbatim>\<open>subcategory_id\<close> carry a prime, their names being
  those of the fields of \<open>Product\<close>. \<open>build_filter_dict\<close> is the part of \<^verbatim>\<open>list_products\<close>
  that fills \<^verbatim>\<open>filter_dict\<close> (lines 100 to 106), on its own so that the filter can be stated.
\<close>

definition build_filter_dict :: "string option \<Rightarrow> string option \<Rightarrow> string option \<Rightarrow> filter_dict" where
  "build_filter_dict category_id' subcategory_id' q =
     (let filter_dict = [];
          filter_dict = (case category_id' of
                           None \<Rightarrow> filter_dict
                         | Some v \<Rightarrow> if v \<noteq> [] then AList.update ''category_id'' (Equals v) filter_dict
                                     else filter_dict);
          filter_dict = (case subcategory_id' of
                           None \<Rightarrow> filter_dict
                         | Some v \<Rightarrow> if v \<noteq> [] then AList.update ''subcategory_id'' (Equals v) filter_dict
                                     else filter_dict);
          filter_dict = (case q of
                           None \<Rightarrow> filter_dict
                         | Some v \<Rightarrow> if v \<noteq> [] then AList.update ''name'' (Regex v ''i'') filter_dict
                                     else filter_dict)
      in filter_dict)"

definition list_products ::
  "database option \<Rightarrow> string option \<Rightarrow> string option \<Rightarrow> string option \<Rightarrow> int option \<Rightarrow>
   json_document list outcome" where
  "list_products db category_id' subcategory_id' q limit =
     (case db of
        None \<Rightarrow> (Inl (HTTPException 500 ''Database not configured''), db)
      | Some d \<Rightarrow>
          (let limit = (case limit of None \<Rightarrow> 100 | Some l \<Rightarrow> l);
               filter_dict = build_filter_dict category_id' subcategory_id' q;
               prods = get_documents d ''product'' (Some filter_dict) (Some limit)
           in (Inr (map stringify_id prods), db)))"

subsection \<open>Orders\<close>

text \<open>
  The body of \<^verbatim>\<open>POST /orders\<close> is a \<^verbatim>\<open>PlaceOrderRequest\<close>: its \<^verbatim>\<open>email\<close> is an
  \<^verbatim>\<open>EmailStr\<close> and each of its items is an \<^verbatim>\<open>OrderItem\<close>. The class puts no bound on
  the length of \<^verbatim>\<open>items\<close>.
\<close>

definition PlaceOrderRequest_valid :: "(string \<Rightarrow> bool) \<Rightarrow> PlaceOrderRequest \<Rightarrow> bool" where
  "PlaceOrderRequest_valid valid_email payload \<longleftrightarrow>
     valid_email (PlaceOrderRequest.email payload) \<and>
     list_all OrderItem_valid (PlaceOrderRequest.items payload)"

text \<open>Python's \<^verbatim>\<open>sum\<close>: it adds the elements from the left, starting at \<open>0\<close>.\<close>

definition py_sum :: "rat list \<Rightarrow> rat" where
  "py_sum xs = foldl (+) 0 xs"

text \<open>
  The \<^verbatim>\<open>print\<close> of \<^verbatim>\<open>place_order\<close> writes the order to the log and is left out.
\<close>

definition place_order ::
  "(string \<Rightarrow> bool) \<Rightarrow> database option \<Rightarrow> PlaceOrderRequest \<Rightarrow> OrderResponse outcome" where
  "place_order valid_email db payload =
     (case db of
        None \<Rightarrow> (Inl (HTTPException 500 ''Database not configured''), db)
      | Some d \<Rightarrow>
          (let subtotal = py_sum (map (\<lambda>i. of_int (quantity i) * unit_price i)
                                   (PlaceOrderRequest.items payload));
               tax = 0;
               total = subtotal + tax
           in case Order_new valid_email (PlaceOrderRequest.user_id payload)
                     (PlaceOrderRequest.email payload) (PlaceOrderRequest.items payload)
                     subtotal tax total (PlaceOrderRequest.notes payload)
                     (PlaceOrderRequest.shipping_name payload)
                     (PlaceOrderRequest.shipping_address payload)
                     (PlaceOrderRequest.shipping_phone payload) of
                Inl e \<Rightarrow> (Inl e, db)
              | Inr order \<Rightarrow>
                  (let (order_id, d') = create_document d ''order'' (OrderDoc order)
                   in (Inr \<lparr>order_id = order_id, OrderResponse.total = total\<rparr>, Some d'))))"

text \<open>
  The route \<^verbatim>\<open>@app.post("/orders")\<close>: the framework validates the body against
  \<^verbatim>\<open>PlaceOrderRequest\<close> and calls the handler only with a valid one.
\<close>

definition post_orders ::
  "(string \<Rightarrow> bool) \<Rightarrow> database option \<Rightarrow> PlaceOrderRequest \<Rightarrow> OrderResponse outcome" where
  "post_orders valid_email db payload =
     (if \<not> PlaceOrderRequest_valid valid_email payload then (Inl RequestValidationError, db)
      else place_order valid_email db payload)"

section \<open>Example data\<close>

text \<open>
  A store with no document, and a stand-in for the \<^verbatim>\<open>EmailStr\<close> check that the concrete
  examples use: it accepts the addresses that contain an \<^verbatim>\<open>@\<close>.
\<close>

definition empty_db :: database where
  "empty_db = \<lparr>collections = (\<lambda>_. []), next_oid = 0\<rparr>"

definition contains_at :: "string \<Rightarrow> bool" where
  "contains_at s \<longleftrightarrow> CHR ''@'' \<in> set s"

text \<open>The store after Ann has signed up.\<close>

definition db_ann :: database where
  "db_ann = snd (create_document empty_db ''user''
     (UserDoc \<lparr>User.name = ''Ann'', User.email = ''ann@example.com'',
               hashed_password = ''s3cret'', role = ''customer'', is_active = True\<rparr>))"

definition bob :: SignupRequest where
  "bob = \<lparr>SignupRequest.name = ''Bob'', SignupRequest.email = ''bob@example.com'',
          SignupRequest.password = ''hunter2''\<rparr>"


definition no_items :: PlaceOrderRequest where
  "no_items =
     \<lparr>PlaceOrderRequest.user_id = ''u1'', PlaceOrderRequest.email = ''ann@example.com'',
      PlaceOrderRequest.items = [],
      PlaceOrderRequest.notes = None, PlaceOrderRequest.shipping_name = None,
      PlaceOrderRequest.shipping_address = None, PlaceOrderRequest.shipping_phone = None\<rparr>"

definition zero_quantity :: PlaceOrderRequest where
  "zero_quantity =
     \<lparr>PlaceOrderRequest.user_id = ''u1'', PlaceOrderRequest.email = ''ann@example.com'',
      PlaceOrderRequest.items =
        [\<lparr>product_id = ''p1'', OrderItem.name = ''HDMI cable'', quantity = 0, unit_price = 10.0\<rparr>],
      PlaceOrderRequest.notes = None, PlaceOrderRequest.shipping_name = None,
      PlaceOrderRequest.shipping_address = None, PlaceOrderRequest.shipping_phone = None\<rparr>"

text \<open>
  A stand-in for the identifier check of the \<^verbatim>\<open>bson\<close> library that the concrete examples
  use: it accepts the strings of 24 hexadecimal digits. \<open>gadget cid\<close> is a product of the
  category \<open>cid\<close>.
\<close>

definition hex24 :: "string \<Rightarrow> bool" where
  "hex24 s \<longleftrightarrow> length s = 24 \<and> list_all (\<lambda>c. c \<in> set ''0123456789abcdefABCDEF'') s"

definition gadget :: "string \<Rightarrow> Product" where
  "gadget cid =
     \<lparr>Product.name = ''USB-C Cable'', Product.description = None, price = 9.5, sku = None,
      image_url = None, category_id = cid, subcategory_id = None, in_stock = True,
      stock_qty = None\<rparr>"

text \<open>
  Three categories: a root, a child of the root and a child of that child. The store
  assigns them the identifiers 0, 1 and 2.
\<close>

definition components :: Category where
  "components = \<lparr>Category.name = ''Components'', parent_id = None, Category.description = None\<rparr>"

definition cables :: Category where
  "cables = \<lparr>Category.name = ''Cables'', parent_id = Some (str_ObjectId (ObjectId 0)),
             Category.description = None\<rparr>"

definition hdmi :: Category where
  "hdmi = \<lparr>Category.name = ''HDMI'', parent_id = Some (str_ObjectId (ObjectId 1)),
           Category.description = None\<rparr>"

definition db_abc :: database where
  "db_abc =
     \<lparr>collections = (\<lambda>_. [])(''category'' :=
        [(ObjectId 0, CategoryDoc components), (ObjectId 1, CategoryDoc cables),
         (ObjectId 2, CategoryDoc hdmi)]),
      next_oid = 3\<rparr>"



section \<open>The store adapter: lookups\<close>

lemma matches_email:
  "matches [(''email'', Equals e)] doc \<longleftrightarrow> field_str (snd doc) ''email'' = Some e"
  by (simp add: matches_def)

lemma find_one_None_iff:
  "find_one d c flt = None \<longleftrightarrow> (\<forall>doc\<in>set (collections d c). \<not> matches flt doc)"
  by (auto simp: find_one_def find_None_iff)

lemma find_one_Some:
  "find_one d c flt = Some doc \<Longrightarrow> doc \<in> set (collections d c) \<and> matches flt doc"
  by (auto simp: find_one_def find_Some_iff)

lemma find_append_fresh:
  "\<forall>x\<in>set xs. \<not> P x \<Longrightarrow> P y \<Longrightarrow> find P (xs @ [y]) = Some y"
  by (induction xs) auto

lemma db_ann_user:
  "collections db_ann ''user'' =
     [(ObjectId 0, UserDoc \<lparr>User.name = ''Ann'', User.email = ''ann@example.com'',
                             hashed_password = ''s3cret'', role = ''customer'', is_active = True\<rparr>)]"
  by (simp add: db_ann_def create_document_def empty_db_def)

section \<open>Signup and login\<close>

text \<open>
  Claim C7. A signup whose email is the email of a user document of the store fails with
  the status 400 and the detail ``Email already registered'', whatever the name and the
  password of the request are, and the store after the request is the store before it: no
  user document is inserted.
\<close>

theorem signup_existing_email_rejected:
  assumes "\<exists>doc\<in>set (collections d ''user'').
             field_str (snd doc) ''email'' = Some (SignupRequest.email payload)"
  shows "signup valid_email (Some d) payload =
           (Inl (HTTPException 400 ''Email already registered''), Some d)"
proof -
  from assms
  have "find_one d ''user'' [(''email'', Equals (SignupRequest.email payload))] \<noteq> None"
    by (simp add: find_one_None_iff matches_email)
  then obtain existing where
    "find_one d ''user'' [(''email'', Equals (SignupRequest.email payload))] = Some existing"
    by blast
  then show ?thesis by (simp add: signup_def)
qed

text \<open>Ann's address is taken: a signup with it and another password is refused.\<close>

theorem signup_existing_email_rejected_witness:
  "(\<exists>doc\<in>set (collections db_ann ''user'').
      field_str (snd doc) ''email'' = Some ''ann@example.com'') \<and>
   signup contains_at (Some db_ann)
     \<lparr>SignupRequest.name = ''Eve'', SignupRequest.email = ''ann@example.com'',
      SignupRequest.password = ''other''\<rparr> =
     (Inl (HTTPException 400 ''Email already registered''), Some db_ann)"
proof -
  have h: "\<exists>doc\<in>set (collections db_ann ''user'').
             field_str (snd doc) ''email'' =
             Some (SignupRequest.email \<lparr>SignupRequest.name = ''Eve'',
                     SignupRequest.email = ''ann@example.com'',
                     SignupRequest.password = ''other''\<rparr>)"
    by (simp add: db_ann_user)
  from signup_existing_email_rejected [OF h, of contains_at] h show ?thesis by simp
qed

text \<open>
  Claim C3. For a signup payload with a valid email that no user document of the store
  has, signup succeeds and returns a user_id, and a login with the same email and password
  on the store that signup leaves succeeds and returns the same user_id (with the name and
  the email of the payload).
\<close>

theorem signup_then_login:
  assumes valid: "valid_email (SignupRequest.email payload)"
    and fresh: "\<forall>doc\<in>set (collections d ''user'').
                  field_str (snd doc) ''email'' \<noteq> Some (SignupRequest.email payload)"
  shows "\<exists>uid d'.
           signup valid_email (Some d) payload =
             (Inr \<lparr>SignupResponse.user_id = uid,
                   SignupResponse.email = SignupRequest.email payload\<rparr>, Some d') \<and>
           login (Some d') \<lparr>LoginRequest.email = SignupRequest.email payload,
                            LoginRequest.password = SignupRequest.password payload\<rparr> =
             (Inr \<lparr>LoginResponse.user_id = uid,
                   LoginResponse.name = Some (SignupRequest.name payload),
                   LoginResponse.email = Some (SignupRequest.email payload)\<rparr>, Some d')"
proof -
  let ?flt = "[(''email'', Equals (SignupRequest.email payload))]"
  let ?user = "\<lparr>User.name = SignupRequest.name payload,
                 User.email = SignupRequest.email payload,
                 hashed_password = SignupRequest.password payload,
                 role = ''customer'', is_active = True\<rparr>"
  let ?doc = "(ObjectId (next_oid d), UserDoc ?user)"
  let ?d' = "snd (create_document d ''user'' (UserDoc ?user))"
  let ?uid = "str_ObjectId (ObjectId (next_oid d))"
  from fresh have none: "find_one d ''user'' ?flt = None"
    by (simp add: find_one_None_iff matches_email)
  have new: "User_new valid_email (SignupRequest.name payload) (SignupRequest.email payload)
               (SignupRequest.password payload) = Inr ?user"
    using valid by (simp add: User_new_def)
  have s: "signup valid_email (Some d) payload =
             (Inr \<lparr>SignupResponse.user_id = ?uid,
                   SignupResponse.email = SignupRequest.email payload\<rparr>, Some ?d')"
    by (simp add: signup_def none new create_document_def Let_def del: str_ObjectId.simps)
  have coll: "collections ?d' ''user'' = collections d ''user'' @ [?doc]"
    by (simp add: create_document_def Let_def)
  have "find_one ?d' ''user'' ?flt = Some ?doc"
    unfolding find_one_def coll
    by (rule find_append_fresh) (use fresh in \<open>simp_all add: matches_email\<close>)
  then have l: "login (Some ?d') \<lparr>LoginRequest.email = SignupRequest.email payload,
                                  LoginRequest.password = SignupRequest.password payload\<rparr> =
                  (Inr \<lparr>LoginResponse.user_id = ?uid,
                        LoginResponse.name = Some (SignupRequest.name payload),
                        LoginResponse.email = Some (SignupRequest.email payload)\<rparr>, Some ?d')"
    by (simp add: login_def del: str_ObjectId.simps)
  from s l show ?thesis by blast
qed

text \<open>Bob signs up on the store that holds Ann, then logs in.\<close>

theorem signup_then_login_witness:
  "contains_at ''bob@example.com'' \<and>
   (\<exists>uid d'.
      signup contains_at (Some db_ann) bob =
        (Inr \<lparr>SignupResponse.user_id = uid, SignupResponse.email = ''bob@example.com''\<rparr>,
         Some d') \<and>
      login (Some d') \<lparr>LoginRequest.email = ''bob@example.com'',
                       LoginRequest.password = ''hunter2''\<rparr> =
        (Inr \<lparr>LoginResponse.user_id = uid, LoginResponse.name = Some ''Bob'',
              LoginResponse.email = Some ''bob@example.com''\<rparr>, Some d'))"
proof -
  have v: "contains_at (SignupRequest.email bob)"
    by (simp add: bob_def contains_at_def)
  have f: "\<forall>doc\<in>set (collections db_ann ''user'').
             field_str (snd doc) ''email'' \<noteq> Some (SignupRequest.email bob)"
    by (simp add: db_ann_user bob_def)
  from signup_then_login [where valid_email = contains_at and payload = bob and d = db_ann, OF v f] v
  show ?thesis by (simp add: bob_def)
qed

section \<open>Orders\<close>



lemma place_order_not_request_fault:
  "fst (place_order valid_email db payload) \<noteq> Inl RequestValidationError"
  by (auto simp: place_order_def Order_new_def Let_def split_beta split: option.splits)



text \<open>
  Claim C4, as the code has it. \<^verbatim>\<open>PlaceOrderRequest\<close> puts no lower bound on the number of
  items. For a request with a well-formed email, the request is rejected as a validation
  fault if and only if some item has a quantity below 1 or a unit_price below 0; the
  rejection comes before any store access (the store, configured or not, is returned as it
  was); a request with no item is not rejected but handed to \<open>place_order\<close>.
\<close>

theorem post_orders_rejects_iff:
  assumes "valid_email (PlaceOrderRequest.email payload)"
  shows "(fst (post_orders valid_email db payload) = Inl RequestValidationError \<longleftrightarrow>
            (\<exists>i\<in>set (PlaceOrderRequest.items payload). quantity i < 1 \<or> unit_price i < 0)) \<and>
         ((\<exists>i\<in>set (PlaceOrderRequest.items payload). quantity i < 1 \<or> unit_price i < 0) \<longrightarrow>
            post_orders valid_email db payload = (Inl RequestValidationError, db)) \<and>
         (PlaceOrderRequest.items payload = [] \<longrightarrow>
            post_orders valid_email db payload = place_order valid_email db payload)"
  using assms place_order_not_request_fault [of valid_email db payload]
  by (auto simp: post_orders_def PlaceOrderRequest_valid_def list_all_iff OrderItem_valid_def
        not_le)

text \<open>An item with the quantity 0 is rejected, here with no store configured.\<close>

theorem post_orders_rejects_iff_witness:
  "contains_at (PlaceOrderRequest.email zero_quantity) \<and>
   (\<exists>i\<in>set (PlaceOrderRequest.items zero_quantity). quantity i < 1 \<or> unit_price i < 0) \<and>
   fst (post_orders contains_at None zero_quantity) = Inl RequestValidationError \<and>
   post_orders contains_at None zero_quantity = (Inl RequestValidationError, None)"
proof -
  have v: "contains_at (PlaceOrderRequest.email zero_quantity)"
    by (simp add: zero_quantity_def contains_at_def)
  have b: "\<exists>i\<in>set (PlaceOrderRequest.items zero_quantity). quantity i < 1 \<or> unit_price i < 0"
    by (simp add: zero_quantity_def)
  from post_orders_rejects_iff
    [where valid_email = contains_at and payload = zero_quantity and db = None, OF v] v b
  show ?thesis by simp
qed

text \<open>
  The claim C4 as stated fails: a request with an empty list of items and a well-formed
  email is accepted, and an order with the total 0 is placed.
\<close>

theorem post_orders_empty_items_counterexample:
  "PlaceOrderRequest.items no_items = [] \<and>
   fst (post_orders contains_at (Some empty_db) no_items) =
     Inr \<lparr>order_id = str_ObjectId (ObjectId 0), OrderResponse.total = 0\<rparr> \<and>
   fst (post_orders contains_at (Some empty_db) no_items) \<noteq> Inl RequestValidationError"
  by (simp add: post_orders_def PlaceOrderRequest_valid_def no_items_def contains_at_def
        place_order_def py_sum_def Order_new_def create_document_def empty_db_def Let_def
      del: str_ObjectId.simps)

section \<open>Login\<close>

text \<open>
  Claim C6. With the store available, a login fails with the status 401 and the detail
  ``Invalid credentials'' when no user document has the given email, and with the very
  same error when the document found for the email stores a password other than the one
  supplied; in the remaining case (a document is found and its stored password is the
  supplied one) the login succeeds and returns the user_id, the name and the email of that
  document. The store is returned unchanged in all three cases. The last conjunct says the
  cases are exhaustive: when some user document has the email, the lookup finds one.
\<close>

theorem login_outcomes:
  "((\<forall>doc\<in>set (collections d ''user'').
        field_str (snd doc) ''email'' \<noteq> Some (LoginRequest.email payload)) \<longrightarrow>
      login (Some d) payload = (Inl (HTTPException 401 ''Invalid credentials''), Some d)) \<and>
   (\<forall>user. find_one d ''user'' [(''email'', Equals (LoginRequest.email payload))] = Some user \<and>
        field_str (snd user) ''hashed_password'' \<noteq> Some (LoginRequest.password payload) \<longrightarrow>
      login (Some d) payload = (Inl (HTTPException 401 ''Invalid credentials''), Some d)) \<and>
   (\<forall>user. find_one d ''user'' [(''email'', Equals (LoginRequest.email payload))] = Some user \<and>
        field_str (snd user) ''hashed_password'' = Some (LoginRequest.password payload) \<longrightarrow>
      login (Some d) payload =
        (Inr \<lparr>LoginResponse.user_id = str_ObjectId (fst user),
              LoginResponse.name = field_str (snd user) ''name'',
              LoginResponse.email = field_str (snd user) ''email''\<rparr>, Some d)) \<and>
   ((\<exists>doc\<in>set (collections d ''user'').
        field_str (snd doc) ''email'' = Some (LoginRequest.email payload)) \<longrightarrow>
      (\<exists>user\<in>set (collections d ''user'').
         find_one d ''user'' [(''email'', Equals (LoginRequest.email payload))] = Some user \<and>
         field_str (snd user) ''email'' = Some (LoginRequest.email payload)))"
proof (intro conjI impI allI)
  let ?flt = "[(''email'', Equals (LoginRequest.email payload))]"
  {
    assume "\<forall>doc\<in>set (collections d ''user'').
        field_str (snd doc) ''email'' \<noteq> Some (LoginRequest.email payload)"
    then have "find_one d ''user'' ?flt = None"
      by (simp add: find_one_None_iff matches_email)
    then show "login (Some d) payload = (Inl (HTTPException 401 ''Invalid credentials''), Some d)"
      by (simp add: login_def)
  }
  {
    fix user
    assume "find_one d ''user'' ?flt = Some user \<and>
        field_str (snd user) ''hashed_password'' \<noteq> Some (LoginRequest.password payload)"
    then show "login (Some d) payload = (Inl (HTTPException 401 ''Invalid credentials''), Some d)"
      by (simp add: login_def)
  }
  {
    fix user
    assume "find_one d ''user'' ?flt = Some user \<and>
        field_str (snd user) ''hashed_password'' = Some (LoginRequest.password payload)"
    then show "login (Some d) payload =
        (Inr \<lparr>LoginResponse.user_id = str_ObjectId (fst user),
              LoginResponse.name = field_str (snd user) ''name'',
              LoginResponse.email = field_str (snd user) ''email''\<rparr>, Some d)"
      by (simp add: login_def)
  }
  {
    assume "\<exists>doc\<in>set (collections d ''user'').
        field_str (snd doc) ''email'' = Some (LoginRequest.email payload)"
    then have "find_one d ''user'' ?flt \<noteq> None"
      by (simp add: find_one_None_iff matches_email)
    then obtain user where u: "find_one d ''user'' ?flt = Some user" by blast
    from find_one_Some [OF u]
    have "user \<in> set (collections d ''user'')"
      and "field_str (snd user) ''email'' = Some (LoginRequest.email payload)"
      by (simp_all add: matches_email)
    with u show "\<exists>user\<in>set (collections d ''user'').
         find_one d ''user'' ?flt = Some user \<and>
         field_str (snd user) ''email'' = Some (LoginRequest.email payload)"
      by blast
  }
qed

text \<open>
  On the store that holds Ann: an unknown email and a wrong password give the same error,
  the right password gives Ann's identity.
\<close>

theorem login_outcomes_witness:
  "login (Some db_ann) \<lparr>LoginRequest.email = ''nobody@example.com'', LoginRequest.password = ''s3cret''\<rparr> =
     (Inl (HTTPException 401 ''Invalid credentials''), Some db_ann) \<and>
   login (Some db_ann) \<lparr>LoginRequest.email = ''ann@example.com'', LoginRequest.password = ''wrong''\<rparr> =
     (Inl (HTTPException 401 ''Invalid credentials''), Some db_ann) \<and>
   login (Some db_ann) \<lparr>LoginRequest.email = ''ann@example.com'', LoginRequest.password = ''s3cret''\<rparr> =
     (Inr \<lparr>LoginResponse.user_id = str_ObjectId (ObjectId 0), LoginResponse.name = Some ''Ann'',
           LoginResponse.email = Some ''ann@example.com''\<rparr>, Some db_ann)"
proof -
  let ?ann = "(ObjectId 0, UserDoc \<lparr>User.name = ''Ann'', User.email = ''ann@example.com'',
                             hashed_password = ''s3cret'', role = ''customer'', is_active = True\<rparr>)"
  have f: "find_one db_ann ''user'' [(''email'', Equals ''ann@example.com'')] = Some ?ann"
    by (simp add: find_one_def db_ann_user matches_email)
  have a: "\<forall>doc\<in>set (collections db_ann ''user'').
        field_str (snd doc) ''email'' \<noteq> Some ''nobody@example.com''"
    by (simp add: db_ann_user)
  from login_outcomes [of db_ann "\<lparr>LoginRequest.email = ''nobody@example.com'', LoginRequest.password = ''s3cret''\<rparr>"] a
  have 1: "login (Some db_ann) \<lparr>LoginRequest.email = ''nobody@example.com'', LoginRequest.password = ''s3cret''\<rparr> =
     (Inl (HTTPException 401 ''Invalid credentials''), Some db_ann)" by simp
  from login_outcomes [of db_ann "\<lparr>LoginRequest.email = ''ann@example.com'', LoginRequest.password = ''wrong''\<rparr>"] f
  have 2: "login (Some db_ann) \<lparr>LoginRequest.email = ''ann@example.com'', LoginRequest.password = ''wrong''\<rparr> =
     (Inl (HTTPException 401 ''Invalid credentials''), Some db_ann)" by simp
  from login_outcomes [of db_ann "\<lparr>LoginRequest.email = ''ann@example.com'', LoginRequest.password = ''s3cret''\<rparr>"] f
  have 3: "login (Some db_ann) \<lparr>LoginRequest.email = ''ann@example.com'', LoginRequest.password = ''s3cret''\<rparr> =
     (Inr \<lparr>LoginResponse.user_id = str_ObjectId (ObjectId 0), LoginResponse.name = Some ''Ann'',
           LoginResponse.email = Some ''ann@example.com''\<rparr>, Some db_ann)"
    by (simp del: str_ObjectId.simps)
  from 1 2 3 show ?thesis by blast
qed

section \<open>Product creation\<close>

text \<open>
  Claim C5, as the code has it. The check of \<^verbatim>\<open>category_id\<close> is guarded by
  \<^verbatim>\<open>if prod.category_id:\<close>. With the store available, a product whose category_id is a
  non-empty string that is not a valid store identifier is refused with the status 400 and
  the detail ``Invalid category_id'', and the store is returned unchanged; a product whose
  category_id is the empty string is not checked: it is inserted and its new id returned.
\<close>

theorem create_product_invalid_category_id:
  "(category_id product \<noteq> [] \<and> \<not> is_object_id (category_id product) \<longrightarrow>
      create_product is_object_id (Some d) product =
        (Inl (HTTPException 400 ''Invalid category_id''), Some d)) \<and>
   (category_id product = [] \<longrightarrow>
      create_product is_object_id (Some d) product =
        (Inr \<lparr>id_ = fst (create_document d ''product'' (ProductDoc product))\<rparr>,
         Some (snd (create_document d ''product'' (ProductDoc product)))))"
  by (simp add: create_product_def split_beta)

text \<open>The category_id ``not-a-valid-id'' is refused and the store is left as it was.\<close>

theorem create_product_invalid_category_id_witness:
  "category_id (gadget ''not-a-valid-id'') \<noteq> [] \<and>
   \<not> hex24 (category_id (gadget ''not-a-valid-id'')) \<and>
   create_product hex24 (Some db_ann) (gadget ''not-a-valid-id'') =
     (Inl (HTTPException 400 ''Invalid category_id''), Some db_ann)"
  using create_product_invalid_category_id [of "gadget ''not-a-valid-id''" hex24 db_ann]
  by (simp add: gadget_def hex24_def)

text \<open>
  The claim C5 as stated fails at the empty string: it is not a valid identifier, yet the
  product is inserted into the store.
\<close>

theorem create_product_empty_category_id_counterexample:
  "\<not> hex24 [] \<and>
   category_id (gadget []) = [] \<and>
   create_product hex24 (Some empty_db) (gadget []) =
     (Inr \<lparr>id_ = str_ObjectId (ObjectId 0)\<rparr>,
      Some (snd (create_document empty_db ''product'' (ProductDoc (gadget []))))) \<and>
   collections (snd (create_document empty_db ''product'' (ProductDoc (gadget [])))) ''product'' =
     [(ObjectId 0, ProductDoc (gadget []))]"
  by (simp add: hex24_def gadget_def create_product_def create_document_def empty_db_def Let_def
      del: str_ObjectId.simps)

section \<open>Category listing\<close>

lemma setdefault_append_absent:
  "parent \<notin> fst ` set bp \<Longrightarrow> setdefault_append parent c bp = bp @ [(parent, [c])]"
  by (induction bp) auto

lemma setdefault_append_present:
  "distinct (map fst bp) \<Longrightarrow> parent \<in> fst ` set bp \<Longrightarrow>
   setdefault_append parent c bp =
     map (\<lambda>(k, cs). if k = parent then (k, cs @ [c]) else (k, cs)) bp"
proof (induction bp)
  case Nil
  then show ?case by simp
next
  case (Cons e bp)
  obtain k cs where e: "e = (k, cs)" by (cases e)
  show ?case
  proof (cases "k = parent")
    case True
    with Cons.prems e have "parent \<notin> fst ` set bp" by auto
    then have "map (\<lambda>(k, cs). if k = parent then (k, cs @ [c]) else (k, cs)) bp = bp"
      by (intro map_idI) (auto simp: rev_image_eqI)
    with True e show ?thesis by simp
  next
    case False
    with Cons e show ?thesis by auto
  qed
qed

lemma setdefault_append_step:
  assumes d: "distinct (map fst bp)"
    and k: "fst ` set bp = f ` set seen"
    and g: "\<forall>p cs. (p, cs) \<in> set bp \<longrightarrow> cs = filter (\<lambda>x. f x = p) seen"
  shows "distinct (map fst (setdefault_append (f c) c bp)) \<and>
         fst ` set (setdefault_append (f c) c bp) = f ` set (seen @ [c]) \<and>
         (\<forall>p cs. (p, cs) \<in> set (setdefault_append (f c) c bp) \<longrightarrow>
            cs = filter (\<lambda>x. f x = p) (seen @ [c]))"
proof (cases "f c \<in> fst ` set bp")
  case False
  then have new: "setdefault_append (f c) c bp = bp @ [(f c, [c])]"
    by (rule setdefault_append_absent)
  from False k have "f c \<notin> f ` set seen" by simp
  then have "\<forall>x\<in>set seen. f x \<noteq> f c" by (metis imageI)
  then have empty: "filter (\<lambda>x. f x = f c) seen = []"
    by (simp add: filter_empty_conv)
  have 1: "distinct (map fst (bp @ [(f c, [c])]))"
    using d False by simp
  have 2: "fst ` set (bp @ [(f c, [c])]) = f ` set (seen @ [c])"
    using k by auto
  have 3: "cs = filter (\<lambda>x. f x = p) (seen @ [c])" if "(p, cs) \<in> set (bp @ [(f c, [c])])" for p cs
  proof (cases "(p, cs) \<in> set bp")
    case True
    then have "p \<in> fst ` set bp" by force
    with False have "f c \<noteq> p" by blast
    with g True show ?thesis by simp
  next
    case False
    with that have "p = f c" "cs = [c]" by simp_all
    with empty show ?thesis by simp
  qed
  from 1 2 3 show ?thesis unfolding new by blast
next
  case True
  let ?u = "\<lambda>(k, cs). if k = f c then (k, cs @ [c]) else (k, cs)"
  have new: "setdefault_append (f c) c bp = map ?u bp"
    using d True by (rule setdefault_append_present)
  have keys: "map fst (map ?u bp) = map fst bp"
    by (induction bp) auto
  have 1: "distinct (map fst (map ?u bp))"
    using d unfolding keys .
  have "fst ` set (map ?u bp) = fst ` set bp"
    using keys by (metis list.set_map)
  with k True have 2: "fst ` set (map ?u bp) = f ` set (seen @ [c])"
    by auto
  have 3: "cs = filter (\<lambda>x. f x = p) (seen @ [c])" if "(p, cs) \<in> set (map ?u bp)" for p cs
  proof -
    from that obtain k' cs' where in_bp: "(k', cs') \<in> set bp" and eq: "(p, cs) = ?u (k', cs')"
      by auto
    from g in_bp have cs': "cs' = filter (\<lambda>x. f x = k') seen" by blast
    show ?thesis
    proof (cases "k' = f c")
      case True
      with eq cs' show ?thesis by simp
    next
      case False
      with eq cs' show ?thesis by auto
    qed
  qed
  from 1 2 3 show ?thesis unfolding new by blast
qed

lemma build_hierarchy_groups:
  assumes "distinct (map fst bp)"
    and "fst ` set bp = (\<lambda>c. field_str (snd c) ''parent_id'') ` set seen"
    and "\<forall>p cs. (p, cs) \<in> set bp \<longrightarrow>
           cs = filter (\<lambda>c. field_str (snd c) ''parent_id'' = p) seen"
  shows "distinct (map fst (build_hierarchy cats bp)) \<and>
         fst ` set (build_hierarchy cats bp) =
           (\<lambda>c. field_str (snd c) ''parent_id'') ` set (seen @ map stringify_id cats) \<and>
         (\<forall>p cs. (p, cs) \<in> set (build_hierarchy cats bp) \<longrightarrow>
            cs = filter (\<lambda>c. field_str (snd c) ''parent_id'' = p) (seen @ map stringify_id cats))"
  using assms
proof (induction cats arbitrary: bp seen)
  case Nil
  then show ?case by simp
next
  case (Cons c cats)
  let ?f = "\<lambda>c. field_str (snd c) ''parent_id''"
  from setdefault_append_step [where f = ?f and c = "stringify_id c", OF Cons.prems]
  have "distinct (map fst (setdefault_append (?f (stringify_id c)) (stringify_id c) bp))"
    and "fst ` set (setdefault_append (?f (stringify_id c)) (stringify_id c) bp) =
           ?f ` set (seen @ [stringify_id c])"
    and "\<forall>p cs. (p, cs) \<in> set (setdefault_append (?f (stringify_id c)) (stringify_id c) bp) \<longrightarrow>
           cs = filter (\<lambda>x. ?f x = p) (seen @ [stringify_id c])"
    by blast+
  from Cons.IH [OF this] show ?case by (simp add: Let_def)
qed

text \<open>
  Claim C2. With the store available, the category listing succeeds, leaves the store as
  it was, and groups the retrieved categories by their own \<^verbatim>\<open>parent_id\<close> only: the keys of
  the result are distinct and are exactly the \<^verbatim>\<open>parent_id\<close> values of the retrieved
  categories (None for a root), and the list under a key is the sequence, in retrieval
  order, of the retrieved categories whose \<^verbatim>\<open>parent_id\<close> is that key. So a category is
  listed under the key of its direct parent and under no other key. The categories
  retrieved are those \<^verbatim>\<open>get_documents("category")\<close> returns.
\<close>

theorem list_categories_groups_by_direct_parent:
  "\<exists>by_parent.
     list_categories (Some d) = (Inr by_parent, Some d) \<and>
     distinct (map fst by_parent) \<and>
     fst ` set by_parent =
       (\<lambda>c. field_str (snd c) ''parent_id'') `
         set (map stringify_id (get_documents d ''category'' None None)) \<and>
     (\<forall>parent cs. (parent, cs) \<in> set by_parent \<longrightarrow>
        cs = filter (\<lambda>c. field_str (snd c) ''parent_id'' = parent)
               (map stringify_id (get_documents d ''category'' None None)))"
proof -
  let ?cats = "get_documents d ''category'' None None"
  from build_hierarchy_groups [where bp = "[]" and seen = "[]" and cats = ?cats]
  have "distinct (map fst (build_hierarchy ?cats []))"
    and "fst ` set (build_hierarchy ?cats []) =
           (\<lambda>c. field_str (snd c) ''parent_id'') ` set (map stringify_id ?cats)"
    and "\<forall>p cs. (p, cs) \<in> set (build_hierarchy ?cats []) \<longrightarrow>
           cs = filter (\<lambda>c. field_str (snd c) ''parent_id'' = p) (map stringify_id ?cats)"
    by simp_all
  moreover have "list_categories (Some d) = (Inr (build_hierarchy ?cats []), Some d)"
    by (simp add: list_categories_def)
  ultimately show ?thesis by (intro exI [of _ "build_hierarchy ?cats []"]) auto
qed

lemma oid_0_1: "str_ObjectId (ObjectId 0) \<noteq> str_ObjectId (ObjectId 1)"
  by code_simp

lemma list_categories_abc:
  "list_categories (Some db_abc) =
     (Inr [(None, [(str_ObjectId (ObjectId 0), CategoryDoc components)]),
           (Some (str_ObjectId (ObjectId 0)), [(str_ObjectId (ObjectId 1), CategoryDoc cables)]),
           (Some (str_ObjectId (ObjectId 1)), [(str_ObjectId (ObjectId 2), CategoryDoc hdmi)])],
      Some db_abc)"
  using oid_0_1
  by (simp add: list_categories_def get_documents_def db_abc_def matches_def stringify_id_def
        components_def cables_def hdmi_def Let_def del: str_ObjectId.simps)

text \<open>
  For the root Components, its child Cables and the grandchild HDMI: Components is under
  the key None, Cables under the identifier of Components, HDMI under the identifier of
  Cables and not under that of Components.
\<close>

theorem list_categories_groups_by_direct_parent_witness:
  "\<exists>by_parent.
     list_categories (Some db_abc) = (Inr by_parent, Some db_abc) \<and>
     by_parent =
       [(None, [(str_ObjectId (ObjectId 0), CategoryDoc components)]),
        (Some (str_ObjectId (ObjectId 0)), [(str_ObjectId (ObjectId 1), CategoryDoc cables)]),
        (Some (str_ObjectId (ObjectId 1)), [(str_ObjectId (ObjectId 2), CategoryDoc hdmi)])] \<and>
     distinct (map fst by_parent) \<and>
     (None, [(str_ObjectId (ObjectId 0), CategoryDoc components)]) \<in> set by_parent \<and>
     [(str_ObjectId (ObjectId 0), CategoryDoc components)] =
       filter (\<lambda>c. field_str (snd c) ''parent_id'' = None)
         (map stringify_id (get_documents db_abc ''category'' None None))"
proof -
  from list_categories_groups_by_direct_parent [of db_abc]
  obtain bp where 1: "list_categories (Some db_abc) = (Inr bp, Some db_abc)"
    and 2: "distinct (map fst bp)"
    and 3: "\<forall>parent cs. (parent, cs) \<in> set bp \<longrightarrow>
              cs = filter (\<lambda>c. field_str (snd c) ''parent_id'' = parent)
                     (map stringify_id (get_documents db_abc ''category'' None None))"
    by blast
  from 1 list_categories_abc
  have 4: "bp =
       [(None, [(str_ObjectId (ObjectId 0), CategoryDoc components)]),
        (Some (str_ObjectId (ObjectId 0)), [(str_ObjectId (ObjectId 1), CategoryDoc cables)]),
        (Some (str_ObjectId (ObjectId 1)), [(str_ObjectId (ObjectId 2), CategoryDoc hdmi)])]"
    by simp
  then have 5: "(None, [(str_ObjectId (ObjectId 0), CategoryDoc components)]) \<in> set bp"
    by simp
  with 3 have 6: "[(str_ObjectId (ObjectId 0), CategoryDoc components)] =
       filter (\<lambda>c. field_str (snd c) ''parent_id'' = None)
         (map stringify_id (get_documents db_abc ''category'' None None))"
    by blast
  from 1 2 4 5 6 show ?thesis by blast
qed

section \<open>Product listing\<close>

lemma build_filter_dict_clauses:
  "build_filter_dict c s q =
     (case c of None \<Rightarrow> [] | Some v \<Rightarrow> if v \<noteq> [] then [(''category_id'', Equals v)] else []) @
     (case s of None \<Rightarrow> [] | Some v \<Rightarrow> if v \<noteq> [] then [(''subcategory_id'', Equals v)] else []) @
     (case q of None \<Rightarrow> [] | Some v \<Rightarrow> if v \<noteq> [] then [(''name'', Regex v ''i'')] else [])"
  by (simp add: build_filter_dict_def split: option.splits)







text \<open>
  Claim C9. The category listing and the product listing return the store they were
  given, and a second call with the same inputs on the store the first call leaves returns
  what the first call returned.
\<close>

theorem reads_leave_store_unchanged:
  "snd (list_categories db) = db \<and>
   snd (list_products db c s q limit) = db \<and>
   list_categories (snd (list_categories db)) = list_categories db \<and>
   list_products (snd (list_products db c s q limit)) c s q limit = list_products db c s q limit"
  by (cases db) (simp_all add: list_categories_def list_products_def)

text \<open>
  Claim C10. In the product listing, a parameter given as the empty string is treated as
  an absent one: it adds no clause to the filter (with all three empty the filter is
  empty), and the listing returns what it returns without the parameter.
\<close>

theorem empty_string_parameter_is_absent:
  "build_filter_dict (Some []) s q = build_filter_dict None s q \<and>
   build_filter_dict c (Some []) q = build_filter_dict c None q \<and>
   build_filter_dict c s (Some []) = build_filter_dict c s None \<and>
   build_filter_dict (Some []) (Some []) (Some []) = [] \<and>
   list_products db (Some []) s q limit = list_products db None s q limit \<and>
   list_products db c (Some []) q limit = list_products db c None q limit \<and>
   list_products db c s (Some []) limit = list_products db c s None limit"
  by (cases db) (simp_all add: build_filter_dict_clauses list_products_def)

end
